theory Spec2Isabelle
  imports Complex_Main "HOL-Library.AList" "HOL-Library.Multiset"
begin

section \<open>Resilience layer: the circuit breaker of services/api.ts\<close>

text \<open>
  The module keeps one circuit per upstream source in the object \<open>circuitStates\<close> and
  the thresholds in the constant \<open>CIRCUIT_BREAKER\<close>.  Counters are JavaScript numbers
  that only ever count up from 0 by one, modelled as \<open>nat\<close>; time stamps are the
  millisecond values of \<open>Date.now()\<close>, modelled as \<open>int\<close> and passed in explicitly.
\<close>

datatype source = binance | coinbase | coingecko

datatype circuit_state = Closed | Open | HalfOpen

record circuit_breaker_config =
  failureThreshold :: nat
  resetTimeout :: int
  halfOpenMaxAttempts :: nat

definition CIRCUIT_BREAKER :: circuit_breaker_config where
  "CIRCUIT_BREAKER = \<lparr>failureThreshold = 3, resetTimeout = 300000, halfOpenMaxAttempts = 2\<rparr>"

record circuit =
  failures :: nat
  lastFailure :: int
  state :: circuit_state
  attempts :: nat

type_synonym circuit_states = "source \<Rightarrow> circuit"

definition circuitStates :: circuit_states where
  "circuitStates = (\<lambda>_. \<lparr>failures = 0, lastFailure = 0, state = Closed, attempts = 0\<rparr>)"

text \<open>
  \<open>checkCircuitBreaker(source)\<close>: the first component of the result is the returned
  boolean (\<open>False\<close>: the caller skips the upstream request), the second the circuits
  after the call.  \<open>now\<close> is the value of \<open>Date.now()\<close> read at the start.
\<close>

definition checkCircuitBreaker :: "source \<Rightarrow> int \<Rightarrow> circuit_states \<Rightarrow> bool \<times> circuit_states" where
  "checkCircuitBreaker src now cs =
     (let c = cs src in
      if state c = Open \<and> \<not> (now - lastFailure c \<ge> resetTimeout CIRCUIT_BREAKER)
      then (False, cs)
      else
        let c1 = (if state c = Open then c\<lparr>state := HalfOpen, attempts := 0\<rparr> else c) in
        if state c1 = HalfOpen \<and> attempts c1 \<ge> halfOpenMaxAttempts CIRCUIT_BREAKER
        then (False, cs(src := c1\<lparr>state := Open\<rparr>))
        else (True, cs(src := c1)))"

text \<open>
  \<open>recordApiResult(source, success)\<close>; \<open>now\<close> is the \<open>Date.now()\<close> stored in
  \<open>lastFailure\<close> on a failure.
\<close>

definition recordApiResult :: "source \<Rightarrow> bool \<Rightarrow> int \<Rightarrow> circuit_states \<Rightarrow> circuit_states" where
  "recordApiResult src success now cs =
     (let c = cs src in
      if success then
        (let c1 = (if state c = HalfOpen then c\<lparr>state := Closed\<rparr> else c)
         in cs(src := c1\<lparr>failures := 0, attempts := 0\<rparr>))
      else
        (let c1 = c\<lparr>failures := failures c + 1, lastFailure := now\<rparr>;
             c2 = (if state c1 = HalfOpen then c1\<lparr>attempts := attempts c1 + 1\<rparr> else c1);
             c3 = (if failures c2 \<ge> failureThreshold CIRCUIT_BREAKER then c2\<lparr>state := Open\<rparr> else c2)
         in cs(src := c3)))"

text \<open>
  A concrete run used in the examples below: three failed requests to \<open>binance\<close>,
  recorded at times 10, 20 and 30, starting from the module's initial circuits.
\<close>

definition opened_circuits :: circuit_states where
  "opened_circuits =
     recordApiResult binance False 30 (recordApiResult binance False 20 (recordApiResult binance False 10 circuitStates))"

section \<open>Signal aggregator: per-group filtering of services/trading/signalEvaluator.ts\<close>

text \<open>
  Confidence, momentum and price are JavaScript numbers; they are modelled as reals (finite
  values, no rounding).  \<open>sig_type\<close> is the field \<open>type\<close>; \<open>momentum\<close> is optional.
\<close>

record TradeSignal =
  symbol :: string
  sig_type :: string
  chain :: string
  side :: string
  price :: real
  confidence :: real
  strategy :: string
  reason :: string
  timestamp :: int
  momentum :: "real option"

text \<open>The entries of the object loaded by \<open>storage.load('positions')\<close>, with the two fields read.\<close>

record StoredPosition =
  symbol :: string
  status :: string

definition MAX_SIGNALS_PER_STRATEGY :: nat where
  "MAX_SIGNALS_PER_STRATEGY = 3"

text \<open>The callback of \<open>signals.map\<close>: a copy of the signal with the confidence raised to 0.10.\<close>

definition clampConfidence :: "TradeSignal \<Rightarrow> TradeSignal" where
  "clampConfidence signal =
     signal\<lparr>confidence := (if confidence signal \<ge> 0.10 then confidence signal else 0.10)\<rparr>"

definition openPositions :: "StoredPosition list \<Rightarrow> string set" where
  "openPositions stored = set (map StoredPosition.symbol (filter (\<lambda>p. status p = ''open'') stored))"

text \<open>The score of the sort comparator; \<open>a.momentum || 0\<close> is 0 for an absent momentum.\<close>

definition combinedScore :: "TradeSignal \<Rightarrow> real" where
  "combinedScore a = (confidence a * 0.5) + ((case momentum a of None \<Rightarrow> 0 | Some m \<Rightarrow> m) * 0.5)"

definition maxSignals :: "string \<Rightarrow> nat" where
  "maxSignals strat =
     (if strat = ''social'' \<or> strat = ''pump''
      then MAX_SIGNALS_PER_STRATEGY * 2 else MAX_SIGNALS_PER_STRATEGY)"

text \<open>
  The body of the loop of \<open>filterAndRankSignals\<close> for one group.  \<open>Array.prototype.sort\<close>
  is stable and the comparator \<open>scoreB - scoreA\<close> orders by descending score, which is
  the stable insertion sort by the negated score; \<open>slice(0, maxSignals)\<close> is \<open>take\<close>.
\<close>

definition filterGroup :: "StoredPosition list \<Rightarrow> string \<Rightarrow> TradeSignal list \<Rightarrow> TradeSignal list" where
  "filterGroup stored strat signals =
     (if strat = ''whale'' then filter (\<lambda>signal. confidence signal > 0.7) signals
      else
        let validSignals = map clampConfidence signals;
            validSignals = filter (\<lambda>s. TradeSignal.symbol s \<notin> openPositions stored) validSignals;
            validSignals = sort_key (\<lambda>s. - combinedScore s) validSignals
        in take (maxSignals strat) validSignals)"

text \<open>
  The groups of the \<open>Map\<close> in insertion order.  \<open>load\<close> gives, for the group being
  processed, what \<open>storage.load('positions')\<close> returns at that moment (\<open>None\<close> for
  \<open>null\<close>, which \<open>|| {}\<close> turns into no positions); the whale group does not load.
\<close>

fun filterAndRankSignals ::
  "(string \<Rightarrow> StoredPosition list option) \<Rightarrow> (string \<times> TradeSignal list) list
     \<Rightarrow> (string \<times> TradeSignal list) list" where
  "filterAndRankSignals load [] = []"
| "filterAndRankSignals load ((strat, signals) # groupedSignals) =
     (strat, filterGroup (case load strat of None \<Rightarrow> [] | Some stored \<Rightarrow> stored) strat signals)
       # filterAndRankSignals load groupedSignals"

text \<open>A signal used in the examples.\<close>

definition whale_example :: TradeSignal where
  "whale_example = \<lparr>TradeSignal.symbol = ''SOL'', sig_type = ''entry'', chain = ''solana'', side = ''long'',
     price = 100, confidence = 0.5, strategy = ''whale'', reason = ''accumulation'', timestamp = 0,
     momentum = None\<rparr>"

section \<open>JavaScript numbers where a division can leave the finite range\<close>

text \<open>
  Numbers are IEEE doubles in the source.  Finite values are modelled as reals, without
  rounding.  Where the code divides by a value that can be zero, the quotient is a
  \<open>jsnum\<close>, which adds the two infinities and NaN; the operations below follow ECMAScript on
  those values (a zero divisor is taken as \<open>+0\<close>; signed zeros are not distinguished).
\<close>

datatype jsnum = Num real | PosInf | NegInf | NaN

fun js_neg :: "jsnum \<Rightarrow> jsnum" where
  "js_neg (Num x) = Num (- x)"
| "js_neg PosInf = NegInf"
| "js_neg NegInf = PosInf"
| "js_neg NaN = NaN"

text \<open>An infinity multiplied by the finite \<open>x\<close>, or the quotient of \<open>x\<close> by zero when \<open>i = PosInf\<close>.\<close>

definition js_signed :: "jsnum \<Rightarrow> real \<Rightarrow> jsnum" where
  "js_signed i x = (if x > 0 then i else if x < 0 then js_neg i else NaN)"

fun js_mul :: "jsnum \<Rightarrow> jsnum \<Rightarrow> jsnum" where
  "js_mul NaN b = NaN"
| "js_mul a NaN = NaN"
| "js_mul (Num x) (Num y) = Num (x * y)"
| "js_mul (Num x) b = js_signed b x"
| "js_mul a (Num y) = js_signed a y"
| "js_mul PosInf b = b"
| "js_mul NegInf b = js_neg b"

fun js_div :: "jsnum \<Rightarrow> jsnum \<Rightarrow> jsnum" where
  "js_div NaN b = NaN"
| "js_div a NaN = NaN"
| "js_div (Num x) (Num y) = (if y \<noteq> 0 then Num (x / y) else js_signed PosInf x)"
| "js_div (Num x) b = Num 0"
| "js_div a (Num y) = (if y \<ge> 0 then a else js_neg a)"
| "js_div a b = NaN"

text \<open>\<open>Math.min\<close> of two numbers.\<close>

fun js_min :: "jsnum \<Rightarrow> jsnum \<Rightarrow> jsnum" where
  "js_min NaN b = NaN"
| "js_min a NaN = NaN"
| "js_min NegInf b = NegInf"
| "js_min a NegInf = NegInf"
| "js_min PosInf b = b"
| "js_min a PosInf = a"
| "js_min (Num x) (Num y) = Num (min x y)"

fun js_add :: "jsnum \<Rightarrow> jsnum \<Rightarrow> jsnum" where
  "js_add NaN b = NaN"
| "js_add a NaN = NaN"
| "js_add (Num x) (Num y) = Num (x + y)"
| "js_add PosInf NegInf = NaN"
| "js_add NegInf PosInf = NaN"
| "js_add (Num x) b = b"
| "js_add a b = a"

text \<open>The comparison \<open>a < b\<close>.\<close>

fun js_lt :: "jsnum \<Rightarrow> jsnum \<Rightarrow> bool" where
  "js_lt NaN b = False"
| "js_lt a NaN = False"
| "js_lt (Num x) (Num y) = (x < y)"
| "js_lt a NegInf = False"
| "js_lt PosInf b = False"
| "js_lt a b = True"

text \<open>
  \<open>String.prototype.toLowerCase\<close> on the ASCII letters.  Other characters are left as they
  are; none of them lower-cases to an ASCII letter of the four strategy names the result
  is compared with.
\<close>

definition toLowerCase :: "string \<Rightarrow> string" where
  "toLowerCase s =
     map (\<lambda>c. case map_of (zip ''ABCDEFGHIJKLMNOPQRSTUVWXYZ'' ''abcdefghijklmnopqrstuvwxyz'') c of
                 None \<Rightarrow> c | Some l \<Rightarrow> l) s"

section \<open>Position sizer: services/trading/volatility/positionSizer.ts\<close>

datatype regime = Low | Medium | High | Extreme

record ForecastMetrics =
  atrRatio :: real

record ForecastResult =
  regime :: regime
  predictedVolatility :: real
  currentVolatility :: real
  metrics :: ForecastMetrics

record ConfidenceMultipliers =
  low :: real
  medium :: real
  high :: real

record PositionSizeConfig =
  baseSize :: real
  maxSize :: real
  accountSize :: real
  riskPerTrade :: real
  confidenceMultipliers :: ConfidenceMultipliers

text \<open>The argument object of \<open>calculatePositionSize\<close>.\<close>

record SizeParams =
  volatilityForecast :: ForecastResult
  confidence :: real
  price :: real
  strategy :: string

text \<open>
  The lines pushed to \<open>reasoning\<close>, with the values they print in place of the formatted
  text.
\<close>

datatype reasoning =
    BasePositionSize real
  | VolatilityAdjustment regime real
  | ConfidenceAdjustment real
  | PredictedVolatilityIncrease real
  | StrategyAdjustment string
  | NoStrategyAdjustment
  | RiskAdjustedMaximum jsnum
  | FinalPositionSize jsnum

text \<open>The returned object; \<open>size'\<close> is its field \<open>size\<close>.\<close>

record PositionSize =
  size' :: jsnum
  adjustedRisk :: jsnum
  reasoning :: "reasoning list"

definition VOLATILITY_ADJUSTMENTS :: "regime \<Rightarrow> real" where
  "VOLATILITY_ADJUSTMENTS r = (case r of Low \<Rightarrow> 1.2 | Medium \<Rightarrow> 1.0 | High \<Rightarrow> 0.7 | Extreme \<Rightarrow> 0.5)"

definition getConfidenceMultiplier :: "PositionSizeConfig \<Rightarrow> real \<Rightarrow> real" where
  "getConfidenceMultiplier cfg conf =
     (if conf \<ge> 0.8 then high (confidenceMultipliers cfg)
      else if conf \<ge> 0.6 then medium (confidenceMultipliers cfg)
      else low (confidenceMultipliers cfg))"

definition applyStrategyAdjustments :: "real \<Rightarrow> string \<Rightarrow> reasoning list \<Rightarrow> real \<times> reasoning list" where
  "applyStrategyAdjustments sz strat rs =
     (let s = toLowerCase strat in
      if s = ''trend'' then (sz * 1.2, rs @ [StrategyAdjustment ''Trend strategy adjustment: 1.2x''])
      else if s = ''momentum'' then (sz * 1.1, rs @ [StrategyAdjustment ''Momentum strategy adjustment: 1.1x''])
      else if s = ''mean_reversion'' then (sz * 0.9, rs @ [StrategyAdjustment ''Mean reversion strategy adjustment: 0.9x''])
      else if s = ''arbitrage'' then (sz * 1.5, rs @ [StrategyAdjustment ''Arbitrage strategy adjustment: 1.5x''])
      else (sz, rs @ [NoStrategyAdjustment]))"

text \<open>
  \<open>calculatePositionSize\<close>, a method of an object whose only state is the read-only
  \<open>config\<close>.  On numbers and strings no statement of the \<open>try\<close> block throws, so the
  \<open>catch\<close> branch is not reached and has no counterpart here.
\<close>

definition calculatePositionSize :: "PositionSizeConfig \<Rightarrow> SizeParams \<Rightarrow> PositionSize" where
  "calculatePositionSize cfg params =
     (let forecast = volatilityForecast params;
          rs = [BasePositionSize (baseSize cfg)];
          sz = baseSize cfg;
          volMultiplier = VOLATILITY_ADJUSTMENTS (regime forecast);
          sz = sz * volMultiplier;
          rs = rs @ [VolatilityAdjustment (regime forecast) volMultiplier];
          confidenceMultiplier = getConfidenceMultiplier cfg (confidence params);
          sz = sz * confidenceMultiplier;
          rs = rs @ [ConfidenceAdjustment confidenceMultiplier];
          (sz, rs) =
            (if predictedVolatility forecast > currentVolatility forecast
             then (let volReduction = 1 - (predictedVolatility forecast - currentVolatility forecast)
                   in (sz * max 0.5 volReduction, rs @ [PredictedVolatilityIncrease volReduction]))
             else (sz, rs));
          (sz, rs) = applyStrategyAdjustments sz (strategy params) rs;
          riskAmount = accountSize cfg * (riskPerTrade cfg / 100);
          maxPositionFromRisk = js_div (Num riskAmount) (Num (currentVolatility forecast / 100));
          sz = js_min (Num sz) maxPositionFromRisk;
          rs = rs @ [RiskAdjustedMaximum maxPositionFromRisk];
          sz = js_min sz (Num (maxSize cfg));
          rs = rs @ [FinalPositionSize sz];
          adjRisk = js_mul (js_div sz (Num (accountSize cfg))) (Num 100)
      in \<lparr>size' = sz, adjustedRisk = adjRisk, reasoning = rs\<rparr>)"

text \<open>The inputs of the example of the specification: confidence 0.85, regime high, account 10000.\<close>

definition sizer_config_example :: PositionSizeConfig where
  "sizer_config_example = \<lparr>baseSize = 100, maxSize = 1000, accountSize = 10000, riskPerTrade = 2,
     confidenceMultipliers = \<lparr>low = 0.5, medium = 0.8, high = 1\<rparr>\<rparr>"

definition sizer_params_example :: SizeParams where
  "sizer_params_example = \<lparr>volatilityForecast =
       \<lparr>regime = High, predictedVolatility = 4, currentVolatility = 5, metrics = \<lparr>atrRatio = 1\<rparr>\<rparr>,
     confidence = 0.85, price = 20, strategy = ''Trend''\<rparr>"

section \<open>Position lifecycle engine: class TradingBot\<close>

text \<open>
  The class is the second module of services/trading/arbitrage/index.ts.  It reads the
  constant object \<open>productionConfig\<close> of services/trading/config.ts; the values it reads are
  the constants below, named by their path.  The only part of the configuration the class
  writes, \<open>config.trading.confidenceMultipliers\<close>, is a field of the state.
\<close>

definition config_sidewaysProtection_maxHoldingTime :: int where
  "config_sidewaysProtection_maxHoldingTime = 1800000"

definition config_sidewaysProtection_priceRangeThreshold :: real where
  "config_sidewaysProtection_priceRangeThreshold = 2"

definition config_sidewaysProtection_volumeDeclineThreshold :: real where
  "config_sidewaysProtection_volumeDeclineThreshold = 30"

definition config_sidewaysProtection_minimumProgress :: real where
  "config_sidewaysProtection_minimumProgress = 5"

definition config_sidewaysProtection_reallocateAfter :: int where
  "config_sidewaysProtection_reallocateAfter = 900000"

definition config_trading_baseSize :: real where
  "config_trading_baseSize = 20"

definition config_trading_maxSize :: real where
  "config_trading_maxSize = 50"

definition config_trading_accountRiskPerTrade :: real where
  "config_trading_accountRiskPerTrade = 2"

definition config_trading_takeProfitLevels_0_percent :: real where
  "config_trading_takeProfitLevels_0_percent = 15"

definition config_trading_takeProfitLevels_0_size :: real where
  "config_trading_takeProfitLevels_0_size = 0.3"

definition config_trading_takeProfitLevels_1_percent :: real where
  "config_trading_takeProfitLevels_1_percent = 30"

definition config_trading_takeProfitLevels_1_size :: real where
  "config_trading_takeProfitLevels_1_size = 0.3"

definition config_trading_stopLoss_initial :: real where
  "config_trading_stopLoss_initial = 5"

definition config_trading_stopLoss_trailing_callback :: real where
  "config_trading_stopLoss_trailing_callback = 5"

definition config_trading_exitTriggers_volumeDecline :: real where
  "config_trading_exitTriggers_volumeDecline = 40"

subsection \<open>Data\<close>

text \<open>\<open>size'\<close> is the field \<open>size\<close> of a take-profit level: the fraction of the quantity to sell.\<close>

record TakeProfitLevel =
  price :: real
  size' :: real
  hit :: bool

record TakeProfitLevels =
  level1 :: TakeProfitLevel
  level2 :: TakeProfitLevel

record TrailingStop =
  active :: bool
  highestPrice :: real
  currentStop :: real
  callback :: real

text \<open>
  The fields of the object \<open>evaluateSignal\<close> stores.  \<open>tokenMint\<close> is the \<open>PublicKey\<close>
  built from the symbol, kept as its string; \<open>openedAt\<close> is a time stamp.
\<close>

record Position =
  symbol :: string
  tokenMint :: string
  entryPrice :: real
  quantity :: real
  remainingQuantity :: real
  stopLoss :: real
  takeProfitLevels :: TakeProfitLevels
  trailingStop :: TrailingStop
  status :: string
  strategy :: string
  confidence :: real
  openedAt :: int

datatype swap_status = Success | Failed

text \<open>The \<open>SwapResult\<close> of services/trading/solana/jupiter.ts.\<close>

record SwapResult =
  status :: swap_status
  signature :: string
  amountOut :: real
  reason :: "string option"

record DailyStats =
  trades :: nat
  wins :: nat
  pnl :: real
  bestTrade :: real
  worstTrade :: real

text \<open>
  What the bot does to the outside, in the order it does it: the calls of \<open>jupiter.swap\<close>
  (input token and amount), the log lines (the message; for a closed trade the symbol, the
  exit reason and the PnL), the trade records handed to \<open>storeTradeRecord\<close> (symbol, entry
  price, exit price, PnL, reason, ROI), the bot-status rows written (\<open>isRunning\<close>,
  \<open>activePositions\<close>) and the status logged by \<open>logBotStatus\<close>.
\<close>

datatype event =
    Swap string real
  | LogInfo string
  | LogError string
  | TradeClosed string string real
  | StoreTradeRecord string real real real string jsnum
  | UpdateBotStatus bool nat
  | BotStatusLogged string

text \<open>
  The fields of the class that the modelled methods read or write.  \<open>positions\<close> is the
  \<open>Map\<close> from symbol to position, as its entries in insertion order; \<open>tradeHistory\<close>
  holds pairs of ROI and confidence; \<open>events\<close> is the trace of outside effects so far.
\<close>

record BotState =
  positions :: "(string \<times> Position) list"
  positionStartTimes :: "string \<rightharpoonup> int"
  isRunning :: bool
  botInitialized :: bool
  shutdownRequested :: bool
  usdcBalance :: real
  totalPnL :: real
  winningTrades :: nat
  totalTrades :: nat
  dailyStats :: DailyStats
  marketPriceCache :: "string \<rightharpoonup> (real \<times> int)"
  tradeHistory :: "(jsnum \<times> real) list"
  config_trading_confidenceMultipliers :: ConfidenceMultipliers
  events :: "event list"

subsection \<open>Outcomes of the awaited calls\<close>

text \<open>
  Every awaited call of a collaborator is an input of the model: \<open>None\<close> stands for a
  rejected promise (the call throws), \<open>Some\<close> for the value it resolves to.  The clock
  values are what \<open>Date.now()\<close> returns at the place named.
\<close>

record ExitEnv =
  exitNow :: int
  exitQuote :: "real option"
  exitSwap :: "SwapResult option"
  exitHoldingTime :: "string option"

record EvalEnv =
  evalMint :: bool
  evalLiquidity :: "(bool \<times> string) option"
  evalWhale :: "bool option"
  evalNow :: int
  evalQuote :: "real option"
  evalSwap :: "SwapResult option"
  evalStart :: int
  evalOpenedAt :: int

record TickEnv =
  tickNow :: int
  tickQuote :: "real option"
  tickAgeNow :: int
  tickReallocRvol :: "real option"
  tickPriceRange :: real
  tickWhale :: "bool option"
  tickSell1 :: "SwapResult option"
  tickSell2 :: "SwapResult option"
  tickExitRvol :: "real option"
  tickExit :: ExitEnv

subsection \<open>Helpers\<close>

definition emit :: "BotState \<Rightarrow> event \<Rightarrow> BotState" where
  "emit st e = st\<lparr>events := events st @ [e]\<rparr>"

text \<open>
  An in-place write to the position object stored under \<open>symb\<close>: the entry keeps its place
  in the table, and a symbol that is not in the table gets no entry.
\<close>

definition setPosition :: "BotState \<Rightarrow> string \<Rightarrow> Position \<Rightarrow> BotState" where
  "setPosition st symb position = st\<lparr>positions := AList.map_entry symb (\<lambda>_. position) (positions st)\<rparr>"

fun js_abs :: "jsnum \<Rightarrow> jsnum" where
  "js_abs (Num x) = Num \<bar>x\<bar>"
| "js_abs PosInf = PosInf"
| "js_abs NegInf = PosInf"
| "js_abs NaN = NaN"

subsection \<open>Methods\<close>

text \<open>
  \<open>getCachedMarketPrice(tokenMint)\<close> with the default \<open>cacheDuration = 3000\<close>: \<open>nw\<close> is
  \<open>Date.now()\<close>, \<open>fetched\<close> the outcome of \<open>jupiter.getMarketPrice\<close> should it be called.
\<close>

definition getCachedMarketPrice :: "BotState \<Rightarrow> string \<Rightarrow> int \<Rightarrow> real option \<Rightarrow> real option \<times> BotState" where
  "getCachedMarketPrice st key nw fetched =
     (let fetch = (case fetched of
                     None \<Rightarrow> (None, st)
                   | Some p \<Rightarrow> (Some p, st\<lparr>marketPriceCache := (marketPriceCache st)(key \<mapsto> (p, nw))\<rparr>))
      in case marketPriceCache st key of
           None \<Rightarrow> fetch
         | Some (p, ts) \<Rightarrow> if nw - ts < 3000 then (Some p, st) else fetch)"

text \<open>\<open>TradingBot.calculatePositionSize(confidence)\<close>, the bot's own sizing.\<close>

definition TradingBot_calculatePositionSize :: "BotState \<Rightarrow> real \<Rightarrow> real" where
  "TradingBot_calculatePositionSize st conf =
     (let multipliers = config_trading_confidenceMultipliers st;
          accountValue = totalPnL st + usdcBalance st;
          maxRiskAmount = accountValue * (config_trading_accountRiskPerTrade / 100);
          multiplier = (if conf \<ge> 0.8 then high multipliers
                        else if conf \<ge> 0.6 then medium multipliers
                        else low multipliers);
          scaledBaseSize = min (config_trading_baseSize * (1 + (accountValue / 1000)))
                               (maxRiskAmount / (config_trading_stopLoss_initial / 100));
          sz = scaledBaseSize * multiplier
      in min sz config_trading_maxSize)"

definition adjustConfidenceMultiplier :: "BotState \<Rightarrow> BotState" where
  "adjustConfidenceMultiplier st =
     (if length (tradeHistory st) < 5 then st
      else
        let avgROI = js_div (foldl (\<lambda>acc trade. js_add acc (fst trade)) (Num 0) (tradeHistory st))
                            (Num (real (length (tradeHistory st))));
            m = config_trading_confidenceMultipliers st;
            st1 = (if js_lt avgROI (Num 0)
                   then emit (st\<lparr>config_trading_confidenceMultipliers :=
                                 \<lparr>low = low m * 0.95, medium = medium m * 0.95, high = high m * 0.95\<rparr>\<rparr>)
                          (LogInfo ''Adjusted confidence multipliers downward based on trade history'')
                   else emit (st\<lparr>config_trading_confidenceMultipliers :=
                                 \<lparr>low = low m * 1.01, medium = medium m * 1.01, high = high m * 1.01\<rparr>\<rparr>)
                          (LogInfo ''Adjusted confidence multipliers upward based on trade history''))
        in if length (tradeHistory st1) > 50 then st1\<lparr>tradeHistory := []\<rparr> else st1)"

text \<open>
  \<open>exitPosition(symbol, position, reason)\<close>.  The statements of the \<open>try\<close> block run in
  order until one throws; the \<open>catch\<close> logs, and \<open>positionStartTimes.delete(symbol)\<close>
  runs in every case.  The calls that can throw are the price lookup, the swap and
  \<open>formatDistanceToNow(position.openedAt)\<close>, which rejects an invalid date
  (\<open>exitHoldingTime\<close>).  Here and below \<open>symb\<close> and \<open>rsn\<close> are the parameters \<open>symbol\<close>
  and \<open>reason\<close>, and a primed name (\<open>pnl'\<close>, \<open>price'\<close>, \<open>baseSize'\<close>) is the local
  variable of that name; the plain names are fields of records.
\<close>

definition exitPosition :: "BotState \<Rightarrow> string \<Rightarrow> Position \<Rightarrow> string \<Rightarrow> ExitEnv \<Rightarrow> BotState" where
  "exitPosition st symb position rsn env =
     (let caught = (\<lambda>s. emit s (LogError ''Error exiting position:''));
          finish = (\<lambda>s. s\<lparr>positionStartTimes := (positionStartTimes s)(symb := None)\<rparr>)
      in case getCachedMarketPrice st (tokenMint position) (exitNow env) (exitQuote env) of
           (None, st1) \<Rightarrow> finish (caught st1)
         | (Some currentPrice, st1) \<Rightarrow>
             let st2 = emit st1 (Swap (tokenMint position) (remainingQuantity position))
             in (case exitSwap env of
                   None \<Rightarrow> finish (caught st2)
                 | Some sellResult \<Rightarrow>
                     let pnl' = (currentPrice - entryPrice position) * remainingQuantity position * currentPrice;
                         roi = js_mul (js_div (Num (currentPrice - entryPrice position)) (Num (entryPrice position)))
                                      (Num 100)
                     in (case exitHoldingTime env of
                           None \<Rightarrow> finish (caught st2)
                         | Some holdingTime \<Rightarrow>
                             let d = dailyStats st2;
                                 d1 = d\<lparr>trades := trades d + 1, pnl := pnl d + pnl',
                                        bestTrade := max (bestTrade d) pnl',
                                        worstTrade := min (worstTrade d) pnl'\<rparr>;
                                 st3 = st2\<lparr>totalPnL := totalPnL st2 + pnl', dailyStats := d1\<rparr>;
                                 st4 = (if pnl' > 0
                                        then st3\<lparr>winningTrades := winningTrades st3 + 1,
                                                 dailyStats := (dailyStats st3)\<lparr>wins := wins (dailyStats st3) + 1\<rparr>\<rparr>
                                        else st3);
                                 st5 = st4\<lparr>totalTrades := totalTrades st4 + 1,
                                           tradeHistory := tradeHistory st4 @ [(roi, confidence position)]\<rparr>;
                                 st6 = adjustConfidenceMultiplier st5;
                                 st7 = emit st6 (TradeClosed symb rsn pnl');
                                 st8 = emit st7 (StoreTradeRecord symb (entryPrice position) currentPrice pnl' rsn roi);
                                 st9 = st8\<lparr>positions := AList.delete symb (positions st8)\<rparr>
                             in finish st9)))"

text \<open>\<open>executeSell(tokenMint, sellAmount)\<close>: the call of \<open>jupiter.swap\<close> and its outcome.\<close>

definition executeSell :: "BotState \<Rightarrow> string \<Rightarrow> real \<Rightarrow> SwapResult option \<Rightarrow> SwapResult option \<times> BotState" where
  "executeSell st mint sellAmount outcome = (outcome, emit st (Swap mint sellAmount))"

text \<open>
  \<open>evaluateSignal(signal)\<close>.  \<open>evalMint\<close> tells whether \<open>new PublicKey(signal.symbol)\<close>
  succeeds.  The three calls under \<open>Promise.all\<close> are all started; the price call's write
  to the cache stands whether or not another of them rejects.
\<close>

definition evaluateSignal :: "BotState \<Rightarrow> TradeSignal \<Rightarrow> EvalEnv \<Rightarrow> BotState" where
  "evaluateSignal st signal env =
     (let symb = TradeSignal.symbol signal;
          caught = (\<lambda>s. emit s (LogError ''Error evaluating signal:''))
      in if map_of (positions st) symb \<noteq> None then st
         else if \<not> evalMint env then caught st
         else
           (case getCachedMarketPrice st symb (evalNow env) (evalQuote env) of
              (priceResult, st1) \<Rightarrow>
                (case (evalLiquidity env, evalWhale env, priceResult) of
                   (Some (isSafe, why), Some distribution, Some price') \<Rightarrow>
                     if \<not> isSafe then emit st1 (LogInfo (''Skipping '' @ symb @ '' - '' @ why))
                     else if distribution
                     then emit st1 (LogInfo (''Skipping '' @ symb @ '' - Whale distribution detected''))
                     else
                       let baseSize' = TradingBot_calculatePositionSize st1 (TradeSignal.confidence signal);
                           st2 = emit st1 (Swap symb baseSize')
                       in (case evalSwap env of
                             None \<Rightarrow> caught st2
                           | Some tradeResult \<Rightarrow>
                               if SwapResult.status tradeResult = Success
                               then emit
                                 (st2\<lparr>positionStartTimes := (positionStartTimes st2)(symb \<mapsto> evalStart env),
                                      positions := AList.update symb
                                        \<lparr>symbol = symb,
                                         tokenMint = symb,
                                         entryPrice = price',
                                         quantity = amountOut tradeResult,
                                         remainingQuantity = amountOut tradeResult,
                                         stopLoss = price' * (1 - config_trading_stopLoss_initial / 100),
                                         takeProfitLevels =
                                           \<lparr>level1 = \<lparr>price = price' * (1 + config_trading_takeProfitLevels_0_percent / 100),
                                                       size' = config_trading_takeProfitLevels_0_size,
                                                       hit = False\<rparr>,
                                            level2 = \<lparr>price = price' * (1 + config_trading_takeProfitLevels_1_percent / 100),
                                                       size' = config_trading_takeProfitLevels_1_size,
                                                       hit = False\<rparr>\<rparr>,
                                         trailingStop =
                                           \<lparr>active = False, highestPrice = price', currentStop = 0,
                                            callback = config_trading_stopLoss_trailing_callback\<rparr>,
                                         status = ''open'',
                                         strategy = TradeSignal.strategy signal,
                                         confidence = TradeSignal.confidence signal,
                                         openedAt = evalOpenedAt env\<rparr>
                                        (positions st2)\<rparr>)
                                 (LogInfo ''Entered new position:'')
                               else st2)
                 | _ \<Rightarrow> caught st1)))"

text \<open>
  \<open>updatePosition(symbol, position)\<close>, the monitoring tick of one position, written as
  its stages from the last to the first.  \<open>position\<close> is the object stored under the symbol
  (both callers pass the entries of \<open>this.positions\<close>), so a write to it is a write to the
  table's entry.  A stage that throws hands the state reached to the \<open>catch\<close> of
  \<open>updatePosition\<close>, which logs.

  Lines 736-740: the volume-decline exit.
\<close>

definition updatePosition_volumeDecline :: "BotState \<Rightarrow> string \<Rightarrow> Position \<Rightarrow> TickEnv \<Rightarrow> BotState" where
  "updatePosition_volumeDecline st symb position env =
     (case tickExitRvol env of
        None \<Rightarrow> emit st (LogError ''Error updating position:'')
      | Some oneHour \<Rightarrow>
          if oneHour < (1 - config_trading_exitTriggers_volumeDecline / 100)
          then exitPosition st symb position ''volume_decline'' (tickExit env)
          else st)"

text \<open>
  Lines 718-723, the first take-profit level: \<open>Inl\<close> when \<open>executeSell\<close> throws, otherwise
  \<open>Inr\<close> with the state and the position object after the block.
\<close>

definition takeProfitLevel1 ::
  "BotState \<Rightarrow> string \<Rightarrow> Position \<Rightarrow> real \<Rightarrow> SwapResult option \<Rightarrow> BotState + BotState \<times> Position" where
  "takeProfitLevel1 st symb position currentPrice outcome =
     (let level = level1 (takeProfitLevels position) in
      if \<not> hit level \<and> currentPrice \<ge> TakeProfitLevel.price level then
        let sellAmount = quantity position * TakeProfitLevel.size' level in
        (case executeSell st (tokenMint position) sellAmount outcome of
           (None, st1) \<Rightarrow> Inl st1
         | (Some sellResult, st1) \<Rightarrow>
             let position1 = position
                   \<lparr>remainingQuantity := remainingQuantity position - sellAmount,
                    takeProfitLevels := (takeProfitLevels position)\<lparr>level1 := level\<lparr>hit := True\<rparr>\<rparr>\<rparr>
             in Inr (setPosition st1 symb position1, position1))
      else Inr (st, position))"

text \<open>Lines 725-734, the second level, which also activates the trailing stop.\<close>

definition takeProfitLevel2 ::
  "BotState \<Rightarrow> string \<Rightarrow> Position \<Rightarrow> real \<Rightarrow> SwapResult option \<Rightarrow> BotState + BotState \<times> Position" where
  "takeProfitLevel2 st symb position currentPrice outcome =
     (let level = level2 (takeProfitLevels position) in
      if \<not> hit level \<and> currentPrice \<ge> TakeProfitLevel.price level then
        let sellAmount = quantity position * TakeProfitLevel.size' level in
        (case executeSell st (tokenMint position) sellAmount outcome of
           (None, st1) \<Rightarrow> Inl st1
         | (Some sellResult, st1) \<Rightarrow>
             let position1 = position
                   \<lparr>remainingQuantity := remainingQuantity position - sellAmount,
                    takeProfitLevels := (takeProfitLevels position)\<lparr>level2 := level\<lparr>hit := True\<rparr>\<rparr>\<rparr>;
                 position2 = position1
                   \<lparr>trailingStop := (trailingStop position1)
                      \<lparr>active := True,
                       highestPrice := currentPrice,
                       currentStop := currentPrice * (1 - callback (trailingStop position1) / 100)\<rparr>\<rparr>
             in Inr (setPosition st1 symb position2, position2))
      else Inr (st, position))"

definition updatePosition_takeProfit ::
  "BotState \<Rightarrow> string \<Rightarrow> Position \<Rightarrow> real \<Rightarrow> TickEnv \<Rightarrow> BotState" where
  "updatePosition_takeProfit st symb position currentPrice env =
     (case takeProfitLevel1 st symb position currentPrice (tickSell1 env) of
        Inl st1 \<Rightarrow> emit st1 (LogError ''Error updating position:'')
      | Inr (st1, position1) \<Rightarrow>
          (case takeProfitLevel2 st1 symb position1 currentPrice (tickSell2 env) of
             Inl st2 \<Rightarrow> emit st2 (LogError ''Error updating position:'')
           | Inr (st2, position2) \<Rightarrow> updatePosition_volumeDecline st2 symb position2 env))"

text \<open>Lines 713-716: the static stop-loss.\<close>

definition updatePosition_stopLoss ::
  "BotState \<Rightarrow> string \<Rightarrow> Position \<Rightarrow> real \<Rightarrow> TickEnv \<Rightarrow> BotState" where
  "updatePosition_stopLoss st symb position currentPrice env =
     (if currentPrice \<le> stopLoss position
      then exitPosition st symb position ''stop_loss'' (tickExit env)
      else updatePosition_takeProfit st symb position currentPrice env)"

text \<open>Lines 702-711: the trailing stop is raised, then tested.\<close>

definition updatePosition_trailingStop ::
  "BotState \<Rightarrow> string \<Rightarrow> Position \<Rightarrow> real \<Rightarrow> TickEnv \<Rightarrow> BotState" where
  "updatePosition_trailingStop st symb position currentPrice env =
     (if active (trailingStop position) then
        let position1 =
              (if currentPrice > highestPrice (trailingStop position)
               then position\<lparr>trailingStop := (trailingStop position)
                      \<lparr>highestPrice := currentPrice,
                       currentStop := currentPrice * (1 - callback (trailingStop position) / 100)\<rparr>\<rparr>
               else position);
            st1 = setPosition st symb position1
        in if currentPrice \<le> currentStop (trailingStop position1)
           then exitPosition st1 symb position1 ''trailing_stop'' (tickExit env)
           else updatePosition_stopLoss st1 symb position1 currentPrice env
      else updatePosition_stopLoss st symb position currentPrice env)"

text \<open>Lines 696-700: whale distribution while the trailing stop is active.\<close>

definition updatePosition_whale ::
  "BotState \<Rightarrow> string \<Rightarrow> Position \<Rightarrow> real \<Rightarrow> TickEnv \<Rightarrow> BotState" where
  "updatePosition_whale st symb position currentPrice env =
     (case tickWhale env of
        None \<Rightarrow> emit st (LogError ''Error updating position:'')
      | Some distribution \<Rightarrow>
          if distribution \<and> active (trailingStop position)
          then exitPosition st symb position ''whale_distribution'' (tickExit env)
          else updatePosition_trailingStop st symb position currentPrice env)"

text \<open>
  Lines 684-694: sideways reallocation.  \<open>getPriceRange\<close> catches its own errors, so only
  \<open>calculateRVOL\<close> can throw here.
\<close>

definition updatePosition_reallocate ::
  "BotState \<Rightarrow> string \<Rightarrow> Position \<Rightarrow> real \<Rightarrow> int \<Rightarrow> TickEnv \<Rightarrow> BotState" where
  "updatePosition_reallocate st symb position currentPrice positionAge env =
     (if positionAge > config_sidewaysProtection_reallocateAfter then
        (case tickReallocRvol env of
           None \<Rightarrow> emit st (LogError ''Error updating position:'')
         | Some oneHour \<Rightarrow>
             if oneHour < (1 - config_sidewaysProtection_volumeDeclineThreshold / 100)
                \<and> tickPriceRange env < config_sidewaysProtection_priceRangeThreshold
             then exitPosition st symb position ''sideways_detected'' (tickExit env)
             else updatePosition_whale st symb position currentPrice env)
      else updatePosition_whale st symb position currentPrice env)"

text \<open>
  Lines 673-682.  With no start time recorded (or a recorded 0, which \<open>||\<close> treats alike)
  the age is the difference of two successive clock reads, which is not positive and is
  taken as 0.  The price change is a quotient by the entry price.
\<close>

definition updatePosition :: "BotState \<Rightarrow> string \<Rightarrow> Position \<Rightarrow> TickEnv \<Rightarrow> BotState" where
  "updatePosition st symb position env =
     (case getCachedMarketPrice st (tokenMint position) (tickNow env) (tickQuote env) of
        (None, st1) \<Rightarrow> emit st1 (LogError ''Error updating position:'')
      | (Some currentPrice, st1) \<Rightarrow>
          let positionAge = (case positionStartTimes st1 symb of
                               None \<Rightarrow> 0
                             | Some t \<Rightarrow> if t = 0 then 0 else tickAgeNow env - t);
              priceChange = js_abs (js_mul (js_div (Num (currentPrice - entryPrice position))
                                                   (Num (entryPrice position))) (Num 100))
          in if positionAge > config_sidewaysProtection_maxHoldingTime
                \<and> js_lt priceChange (Num config_sidewaysProtection_minimumProgress)
             then exitPosition st1 symb position ''sideways_timeout'' (tickExit env)
             else updatePosition_reallocate st1 symb position currentPrice positionAge env)"



subsection \<open>Predicates used to state the properties\<close>





text \<open>Every take-profit flag set in \<open>q\<close> is set in \<open>p\<close>.\<close>

definition hitsLe :: "Position \<Rightarrow> Position \<Rightarrow> bool" where
  "hitsLe q p =
     ((hit (level1 (takeProfitLevels q)) \<longrightarrow> hit (level1 (takeProfitLevels p)))
      \<and> (hit (level2 (takeProfitLevels q)) \<longrightarrow> hit (level2 (takeProfitLevels p))))"

text \<open>The table holds no position under \<open>symb\<close>, or one that has every flag of \<open>q\<close>.\<close>

definition hitsKept :: "Position \<Rightarrow> BotState \<Rightarrow> string \<Rightarrow> bool" where
  "hitsKept q st symb = (case map_of (positions st) symb of None \<Rightarrow> True | Some p \<Rightarrow> hitsLe q p)"

subsection \<open>Example data\<close>

text \<open>A running bot with no position, an account of 1000 USDC and the multipliers of the configuration.\<close>

definition bot0 :: BotState where
  "bot0 = \<lparr>positions = [], positionStartTimes = Map.empty, isRunning = True, botInitialized = True,
     shutdownRequested = False, usdcBalance = 1000, totalPnL = 0, winningTrades = 0, totalTrades = 0,
     dailyStats = \<lparr>trades = 0, wins = 0, pnl = 0, bestTrade = 0, worstTrade = 0\<rparr>,
     marketPriceCache = Map.empty, tradeHistory = [],
     config_trading_confidenceMultipliers = \<lparr>low = 0.4, medium = 0.6, high = 1.0\<rparr>,
     events = []\<rparr>"

text \<open>
  The position \<open>evaluateSignal\<close> opens in \<open>SOL\<close> at price 100 for a quantity of 10 (apart
  from the time stamp): stop-loss at 95, take-profit levels at 115 and 130 for 30 percent each.
\<close>

definition sol_position :: Position where
  "sol_position = \<lparr>symbol = ''SOL'', tokenMint = ''SOL'', entryPrice = 100, quantity = 10,
     remainingQuantity = 10, stopLoss = 95,
     takeProfitLevels = \<lparr>level1 = \<lparr>price = 115, size' = 0.3, hit = False\<rparr>,
                         level2 = \<lparr>price = 130, size' = 0.3, hit = False\<rparr>\<rparr>,
     trailingStop = \<lparr>active = False, highestPrice = 100, currentStop = 0, callback = 5\<rparr>,
     status = ''open'', strategy = ''trend'', confidence = 0.9, openedAt = 0\<rparr>"

text \<open>A swap that succeeded, and the result \<open>jupiter.swap\<close> returns for a price impact above its ceiling.\<close>

definition swap_ok :: SwapResult where
  "swap_ok = \<lparr>status = Success, signature = ''sig'', amountOut = 10, reason = None\<rparr>"

definition swap_failed :: SwapResult where
  "swap_failed = \<lparr>status = Failed, signature = [], amountOut = 0, reason = Some ''High price impact''\<rparr>"

text \<open>An exit whose calls all return: the price source gives \<open>p\<close>, the swap returns \<open>r\<close>.\<close>

definition exit_ok :: "real \<Rightarrow> SwapResult \<Rightarrow> ExitEnv" where
  "exit_ok p r = \<lparr>exitNow = 5000, exitQuote = Some p, exitSwap = Some r, exitHoldingTime = Some ''1 minute ago''\<rparr>"

text \<open>A signal for \<open>SOL\<close>, and an evaluation in which every check passes, the price is 100 and the swap returns \<open>r\<close>.\<close>

definition sol_signal :: TradeSignal where
  "sol_signal = \<lparr>TradeSignal.symbol = ''SOL'', sig_type = ''entry'', chain = ''solana'', side = ''long'',
     price = 100, confidence = 0.9, strategy = ''trend'', reason = ''breakout'', timestamp = 0,
     momentum = Some 0.5\<rparr>"

definition eval_ok :: "SwapResult \<Rightarrow> EvalEnv" where
  "eval_ok r = \<lparr>evalMint = True, evalLiquidity = Some (True, []), evalWhale = Some False,
     evalNow = 7000, evalQuote = Some 100, evalSwap = Some r, evalStart = 7001, evalOpenedAt = 7002\<rparr>"






section \<open>Properties of the circuit breaker\<close>

lemma recordApiResult_failure_state:
  "state (recordApiResult src False now cs src) =
     (if failures (cs src) + 1 \<ge> 3 then Open else state (cs src))"
  by (simp add: recordApiResult_def CIRCUIT_BREAKER_def Let_def)

lemma recordApiResult_failure_failures:
  "failures (recordApiResult src False now cs src) = failures (cs src) + 1"
  by (simp add: recordApiResult_def CIRCUIT_BREAKER_def Let_def)

lemma check_open_cooling:
  "state (cs src) = Open \<Longrightarrow> now - lastFailure (cs src) < resetTimeout CIRCUIT_BREAKER \<Longrightarrow>
     checkCircuitBreaker src now cs = (False, cs)"
  by (simp add: checkCircuitBreaker_def Let_def)

lemma check_open_elapsed:
  "state (cs src) = Open \<Longrightarrow> now - lastFailure (cs src) \<ge> resetTimeout CIRCUIT_BREAKER \<Longrightarrow>
     checkCircuitBreaker src now cs = (True, cs(src := (cs src)\<lparr>state := HalfOpen, attempts := 0\<rparr>))"
  by (simp add: checkCircuitBreaker_def Let_def CIRCUIT_BREAKER_def)

lemma check_half_open_exhausted:
  "state (cs src) = HalfOpen \<Longrightarrow> attempts (cs src) \<ge> halfOpenMaxAttempts CIRCUIT_BREAKER \<Longrightarrow>
     checkCircuitBreaker src now cs = (False, cs(src := (cs src)\<lparr>state := Open\<rparr>))"
  by (simp add: checkCircuitBreaker_def Let_def)

lemma record_success_half_open:
  "state (cs src) = HalfOpen \<Longrightarrow>
     recordApiResult src True now cs = cs(src := (cs src)\<lparr>state := Closed, failures := 0, attempts := 0\<rparr>)"
  by (simp add: recordApiResult_def Let_def)

lemma record_failure_half_open:
  "state (cs src) = HalfOpen \<Longrightarrow> failures (cs src) + 1 \<ge> failureThreshold CIRCUIT_BREAKER \<Longrightarrow>
     recordApiResult src False now cs =
       cs(src := (cs src)\<lparr>failures := failures (cs src) + 1, lastFailure := now,
                              attempts := attempts (cs src) + 1, state := Open\<rparr>)"
  by (simp add: recordApiResult_def Let_def)

text \<open>
  Claim C4.  With \<open>failureThreshold = 3\<close>: three consecutive recorded failures take a
  closed circuit to open; while the circuit is open and less than \<open>resetTimeout\<close> has
  passed since the last failure, \<open>checkCircuitBreaker\<close> answers \<open>False\<close> (the caller
  makes no upstream call) and changes nothing; once \<open>resetTimeout\<close> has passed it admits
  the request and the circuit is half-open; a recorded success in half-open closes the
  circuit; and a half-open circuit whose attempts have reached \<open>halfOpenMaxAttempts\<close>
  is reopened and the request rejected.
\<close>

theorem circuit_breaker_transitions:
  "(state (cs src) = Closed \<longrightarrow>
      state (recordApiResult src False t3 (recordApiResult src False t2 (recordApiResult src False t1 cs)) src) = Open)
   \<and> (state (cs src) = Open \<and> now - lastFailure (cs src) < resetTimeout CIRCUIT_BREAKER \<longrightarrow>
      checkCircuitBreaker src now cs = (False, cs))
   \<and> (state (cs src) = Open \<and> now - lastFailure (cs src) \<ge> resetTimeout CIRCUIT_BREAKER \<longrightarrow>
      fst (checkCircuitBreaker src now cs) \<and> state (snd (checkCircuitBreaker src now cs) src) = HalfOpen)
   \<and> (state (cs src) = HalfOpen \<longrightarrow> state (recordApiResult src True now cs src) = Closed)
   \<and> (state (cs src) = HalfOpen \<and> attempts (cs src) \<ge> halfOpenMaxAttempts CIRCUIT_BREAKER \<longrightarrow>
      \<not> fst (checkCircuitBreaker src now cs) \<and> state (snd (checkCircuitBreaker src now cs) src) = Open)"
proof (intro conjI impI)
  show "state (recordApiResult src False t3 (recordApiResult src False t2 (recordApiResult src False t1 cs)) src) = Open"
    by (simp add: recordApiResult_failure_state recordApiResult_failure_failures)
next
  assume "state (cs src) = Open \<and> now - lastFailure (cs src) < resetTimeout CIRCUIT_BREAKER"
  then show "checkCircuitBreaker src now cs = (False, cs)"
    by (simp add: check_open_cooling)
next
  assume a: "state (cs src) = Open \<and> now - lastFailure (cs src) \<ge> resetTimeout CIRCUIT_BREAKER"
  then show "fst (checkCircuitBreaker src now cs)"
    by (simp add: check_open_elapsed)
  from a show "state (snd (checkCircuitBreaker src now cs) src) = HalfOpen"
    by (simp add: check_open_elapsed)
next
  assume "state (cs src) = HalfOpen"
  then show "state (recordApiResult src True now cs src) = Closed"
    by (simp add: record_success_half_open)
next
  assume a: "state (cs src) = HalfOpen \<and> attempts (cs src) \<ge> halfOpenMaxAttempts CIRCUIT_BREAKER"
  then show "\<not> fst (checkCircuitBreaker src now cs)"
    by (simp add: check_half_open_exhausted)
  from a show "state (snd (checkCircuitBreaker src now cs) src) = Open"
    by (simp add: check_half_open_exhausted)
qed

lemma opened_circuits_binance:
  "opened_circuits binance = \<lparr>failures = 3, lastFailure = 30, state = Open, attempts = 0\<rparr>"
  by (simp add: opened_circuits_def recordApiResult_def circuitStates_def CIRCUIT_BREAKER_def Let_def)

theorem circuit_breaker_transitions_witness:
  "state (circuitStates binance) = Closed
   \<and> state (opened_circuits binance) = Open
   \<and> (31 :: int) - lastFailure (opened_circuits binance) < resetTimeout CIRCUIT_BREAKER
   \<and> checkCircuitBreaker binance 31 opened_circuits = (False, opened_circuits)
   \<and> (300030 :: int) - lastFailure (opened_circuits binance) \<ge> resetTimeout CIRCUIT_BREAKER
   \<and> fst (checkCircuitBreaker binance 300030 opened_circuits)
   \<and> state (snd (checkCircuitBreaker binance 300030 opened_circuits) binance) = HalfOpen
   \<and> state (recordApiResult binance True 300040 (snd (checkCircuitBreaker binance 300030 opened_circuits)) binance) = Closed
   \<and> state ((circuitStates(coinbase := \<lparr>failures = 2, lastFailure = 5, state = HalfOpen, attempts = 2\<rparr>)) coinbase) = HalfOpen
   \<and> attempts ((circuitStates(coinbase := \<lparr>failures = 2, lastFailure = 5, state = HalfOpen, attempts = 2\<rparr>)) coinbase)
        \<ge> halfOpenMaxAttempts CIRCUIT_BREAKER
   \<and> \<not> fst (checkCircuitBreaker coinbase 6 (circuitStates(coinbase := \<lparr>failures = 2, lastFailure = 5, state = HalfOpen, attempts = 2\<rparr>)))
   \<and> state (snd (checkCircuitBreaker coinbase 6 (circuitStates(coinbase := \<lparr>failures = 2, lastFailure = 5, state = HalfOpen, attempts = 2\<rparr>))) coinbase) = Open"
  using circuit_breaker_transitions [of circuitStates binance 30 20 10 31]
    circuit_breaker_transitions [of opened_circuits binance 30 20 10 31]
    circuit_breaker_transitions [of opened_circuits binance 30 20 10 300030]
    circuit_breaker_transitions [of "snd (checkCircuitBreaker binance 300030 opened_circuits)" binance 30 20 10 300040]
    circuit_breaker_transitions [of "circuitStates(coinbase := \<lparr>failures = 2, lastFailure = 5, state = HalfOpen, attempts = 2\<rparr>)" coinbase 30 20 10 6]
  by (simp add: opened_circuits_binance circuitStates_def CIRCUIT_BREAKER_def)

text \<open>
  Claim C5 as stated (\<open>attempts\<close> is 0 after every transition that leaves half-open) fails
  on both transitions from half-open to open.  In the first run below the circuit was opened
  by three failures, became half-open after the cool-down, and the next recorded failure
  reopens it with \<open>attempts = 1\<close>; in the second a half-open circuit with two attempts is
  reopened by \<open>checkCircuitBreaker\<close> with \<open>attempts\<close> still 2.
\<close>

theorem attempts_reset_counterexample:
  "state (snd (checkCircuitBreaker binance 300030 opened_circuits) binance) = HalfOpen
   \<and> state (recordApiResult binance False 300040 (snd (checkCircuitBreaker binance 300030 opened_circuits)) binance) = Open
   \<and> attempts (recordApiResult binance False 300040 (snd (checkCircuitBreaker binance 300030 opened_circuits)) binance) = 1
   \<and> state ((circuitStates(coinbase := \<lparr>failures = 2, lastFailure = 5, state = HalfOpen, attempts = 2\<rparr>)) coinbase) = HalfOpen
   \<and> state (snd (checkCircuitBreaker coinbase 6 (circuitStates(coinbase := \<lparr>failures = 2, lastFailure = 5, state = HalfOpen, attempts = 2\<rparr>))) coinbase) = Open
   \<and> attempts (snd (checkCircuitBreaker coinbase 6 (circuitStates(coinbase := \<lparr>failures = 2, lastFailure = 5, state = HalfOpen, attempts = 2\<rparr>))) coinbase) = 2"
  by (simp add: checkCircuitBreaker_def recordApiResult_def opened_circuits_binance CIRCUIT_BREAKER_def Let_def)

text \<open>
  Claim C5, amended.  \<open>attempts\<close> is reset to 0 on the transition from half-open to
  closed (a recorded success) and on every entry into half-open from open; the transitions
  from half-open to open do not reset it: \<open>checkCircuitBreaker\<close> leaves it unchanged and
  a recorded failure that reopens the circuit has incremented it by one.
\<close>

theorem attempts_reset_points:
  "(state (cs src) = HalfOpen \<longrightarrow>
      state (recordApiResult src True now cs src) = Closed \<and> attempts (recordApiResult src True now cs src) = 0)
   \<and> (state (cs src) = Open \<and> now - lastFailure (cs src) \<ge> resetTimeout CIRCUIT_BREAKER \<longrightarrow>
      state (snd (checkCircuitBreaker src now cs) src) = HalfOpen
      \<and> attempts (snd (checkCircuitBreaker src now cs) src) = 0)
   \<and> (state (cs src) = HalfOpen \<and> attempts (cs src) \<ge> halfOpenMaxAttempts CIRCUIT_BREAKER \<longrightarrow>
      state (snd (checkCircuitBreaker src now cs) src) = Open
      \<and> attempts (snd (checkCircuitBreaker src now cs) src) = attempts (cs src))
   \<and> (state (cs src) = HalfOpen \<and> failures (cs src) + 1 \<ge> failureThreshold CIRCUIT_BREAKER \<longrightarrow>
      state (recordApiResult src False now cs src) = Open
      \<and> attempts (recordApiResult src False now cs src) = attempts (cs src) + 1)"
  by (simp add: check_open_elapsed check_half_open_exhausted record_success_half_open
      record_failure_half_open)

theorem attempts_reset_points_witness:
  "state (snd (checkCircuitBreaker binance 300030 opened_circuits) binance) = HalfOpen
   \<and> attempts (recordApiResult binance True 300040 (snd (checkCircuitBreaker binance 300030 opened_circuits)) binance) = 0
   \<and> state (opened_circuits binance) = Open
   \<and> (300030 :: int) - lastFailure (opened_circuits binance) \<ge> resetTimeout CIRCUIT_BREAKER
   \<and> attempts (snd (checkCircuitBreaker binance 300030 opened_circuits) binance) = 0
   \<and> failures (snd (checkCircuitBreaker binance 300030 opened_circuits) binance) + 1 \<ge> failureThreshold CIRCUIT_BREAKER
   \<and> attempts (recordApiResult binance False 300040 (snd (checkCircuitBreaker binance 300030 opened_circuits)) binance) = 1
   \<and> attempts ((circuitStates(coinbase := \<lparr>failures = 2, lastFailure = 5, state = HalfOpen, attempts = 2\<rparr>)) coinbase)
        \<ge> halfOpenMaxAttempts CIRCUIT_BREAKER
   \<and> attempts (snd (checkCircuitBreaker coinbase 6 (circuitStates(coinbase := \<lparr>failures = 2, lastFailure = 5, state = HalfOpen, attempts = 2\<rparr>))) coinbase) = 2"
  using attempts_reset_points [of opened_circuits binance 300030]
    attempts_reset_points [of "snd (checkCircuitBreaker binance 300030 opened_circuits)" binance 300040]
    attempts_reset_points [of "circuitStates(coinbase := \<lparr>failures = 2, lastFailure = 5, state = HalfOpen, attempts = 2\<rparr>)" coinbase 6]
  by (simp add: opened_circuits_binance circuitStates_def CIRCUIT_BREAKER_def check_open_elapsed)

section \<open>Properties of the signal aggregator\<close>

lemma clampConfidence_symbol: "TradeSignal.symbol (clampConfidence s) = TradeSignal.symbol s"
  by (simp add: clampConfidence_def)

lemma clampConfidence_floor: "TradeSignal.confidence (clampConfidence s) \<ge> 0.10"
  by (simp add: clampConfidence_def)

lemma filter_map_clamp:
  "filter (\<lambda>s. TradeSignal.symbol s \<notin> S) (map clampConfidence xs)
     = map clampConfidence (filter (\<lambda>s. TradeSignal.symbol s \<notin> S) xs)"
  by (induction xs) (simp_all add: clampConfidence_symbol)

lemma mset_take_subset: "mset (take n xs) \<subseteq># mset xs"
proof -
  have "mset xs = mset (take n xs) + mset (drop n xs)"
    by (metis append_take_drop_id mset_append)
  then show ?thesis by simp
qed

lemma filterGroup_other:
  "strat \<noteq> ''whale'' \<Longrightarrow>
     filterGroup stored strat signals =
       take (maxSignals strat)
         (sort_key (\<lambda>s. - combinedScore s)
           (map clampConfidence (filter (\<lambda>s. TradeSignal.symbol s \<notin> openPositions stored) signals)))"
  by (simp add: filterGroup_def Let_def filter_map_clamp)

text \<open>
  Claim C7, amended.  For every group whose strategy is not \<open>whale\<close>, every signal returned
  has confidence at least 0.10, the signals returned are clamped copies of the group's
  signals whose symbol has no open position (as a multiset), and their number is the smaller
  of the cap and the number of such signals: nothing is dropped for low confidence.  The
  \<open>whale\<close> group instead keeps exactly the signals whose confidence exceeds 0.7, unclamped.
\<close>

theorem filterGroup_keeps_low_confidence:
  "(strat \<noteq> ''whale'' \<longrightarrow>
      list_all (\<lambda>s. TradeSignal.confidence s \<ge> 0.10) (filterGroup stored strat signals)
      \<and> mset (filterGroup stored strat signals)
            \<subseteq># mset (map clampConfidence (filter (\<lambda>s. TradeSignal.symbol s \<notin> openPositions stored) signals))
      \<and> length (filterGroup stored strat signals)
            = min (maxSignals strat)
                  (length (filter (\<lambda>s. TradeSignal.symbol s \<notin> openPositions stored) signals)))
   \<and> filterGroup stored ''whale'' signals = filter (\<lambda>s. TradeSignal.confidence s > 0.7) signals"
proof (intro conjI impI)
  assume nw: "strat \<noteq> ''whale''"
  let ?kept = "map clampConfidence (filter (\<lambda>s. TradeSignal.symbol s \<notin> openPositions stored) signals)"
  let ?sorted = "sort_key (\<lambda>s. - combinedScore s) ?kept"
  have eq: "filterGroup stored strat signals = take (maxSignals strat) ?sorted"
    using nw by (rule filterGroup_other)
  have sub: "mset (take (maxSignals strat) ?sorted) \<subseteq># mset ?kept"
    using mset_take_subset [of "maxSignals strat" ?sorted] by simp
  show "mset (filterGroup stored strat signals) \<subseteq># mset ?kept"
    using sub by (simp only: eq)
  have "set (take (maxSignals strat) ?sorted) \<subseteq> set ?kept"
    using set_take_subset [of "maxSignals strat" ?sorted] by simp
  then have "\<forall>s \<in> set (filterGroup stored strat signals). TradeSignal.confidence s \<ge> 0.10"
    unfolding eq using clampConfidence_floor by auto
  then show "list_all (\<lambda>s. TradeSignal.confidence s \<ge> 0.10) (filterGroup stored strat signals)"
    by (simp add: list_all_iff)
  show "length (filterGroup stored strat signals)
          = min (maxSignals strat)
              (length (filter (\<lambda>s. TradeSignal.symbol s \<notin> openPositions stored) signals))"
    unfolding eq by (simp add: min.commute)
next
  show "filterGroup stored ''whale'' signals = filter (\<lambda>s. TradeSignal.confidence s > 0.7) signals"
    by (simp add: filterGroup_def)
qed

text \<open>
  Claim C7 as stated (no signal of any group is dropped for low confidence) fails for the
  \<open>whale\<close> group: a single whale signal of confidence 0.5, with no open position and
  below the cap, is discarded.
\<close>

theorem filterGroup_whale_counterexample:
  "TradeSignal.symbol whale_example \<notin> openPositions []
   \<and> length [whale_example] \<le> maxSignals ''whale''
   \<and> filterGroup [] ''whale'' [whale_example] = []
   \<and> filterAndRankSignals (\<lambda>_. None) [(''whale'', [whale_example])] = [(''whale'', [])]"
  by (simp add: filterGroup_def whale_example_def openPositions_def maxSignals_def MAX_SIGNALS_PER_STRATEGY_def)

theorem filterGroup_keeps_low_confidence_witness:
  "''trend'' \<noteq> ''whale''
   \<and> filterGroup [\<lparr>StoredPosition.symbol = ''BONK'', status = ''open''\<rparr>] ''trend''
        [whale_example\<lparr>TradeSignal.strategy := ''trend'', TradeSignal.confidence := 0.01\<rparr>,
         whale_example\<lparr>TradeSignal.symbol := ''BONK'', TradeSignal.strategy := ''trend'', TradeSignal.confidence := 0.9\<rparr>]
       = [whale_example\<lparr>TradeSignal.strategy := ''trend'', TradeSignal.confidence := 0.10\<rparr>]
   \<and> list_all (\<lambda>s. TradeSignal.confidence s \<ge> 0.10) (filterGroup [\<lparr>StoredPosition.symbol = ''BONK'', status = ''open''\<rparr>] ''trend''
        [whale_example\<lparr>TradeSignal.strategy := ''trend'', TradeSignal.confidence := 0.01\<rparr>,
         whale_example\<lparr>TradeSignal.symbol := ''BONK'', TradeSignal.strategy := ''trend'', TradeSignal.confidence := 0.9\<rparr>])
   \<and> filterGroup [] ''whale'' [whale_example\<lparr>TradeSignal.confidence := 0.9\<rparr>, whale_example] = [whale_example\<lparr>TradeSignal.confidence := 0.9\<rparr>]"
  using filterGroup_keeps_low_confidence [of "''trend''" "[\<lparr>StoredPosition.symbol = ''BONK'', status = ''open''\<rparr>]"
      "[whale_example\<lparr>TradeSignal.strategy := ''trend'', TradeSignal.confidence := 0.01\<rparr>,
        whale_example\<lparr>TradeSignal.symbol := ''BONK'', TradeSignal.strategy := ''trend'', TradeSignal.confidence := 0.9\<rparr>]"]
    filterGroup_keeps_low_confidence [of "''trend''" "[]" "[whale_example\<lparr>TradeSignal.confidence := 0.9\<rparr>, whale_example]"]
  by (simp add: filterGroup_def whale_example_def openPositions_def maxSignals_def
      MAX_SIGNALS_PER_STRATEGY_def clampConfidence_def Let_def)

section \<open>Properties of the position sizer\<close>

lemma calculatePositionSize_example:
  "calculatePositionSize sizer_config_example sizer_params_example =
     \<lparr>PositionSize.size' = Num 84, adjustedRisk = Num 0.84,
      reasoning = [BasePositionSize 100, VolatilityAdjustment High 0.7, ConfidenceAdjustment 1,
                   StrategyAdjustment ''Trend strategy adjustment: 1.2x'',
                   RiskAdjustedMaximum (Num 4000), FinalPositionSize (Num 84)]\<rparr>"
  by (simp add: calculatePositionSize_def sizer_config_example_def sizer_params_example_def
      VOLATILITY_ADJUSTMENTS_def getConfidenceMultiplier_def applyStrategyAdjustments_def
      toLowerCase_def Let_def)

text \<open>
  Claim C8 (two calls with identical inputs return identical outputs, no hidden randomness)
  is not stated as a theorem here.  Over this embedding it would be the congruence
  \<open>x = y \<Longrightarrow> f x = f y\<close>, which holds of every HOL function and says nothing about the
  method.  That the method consults no random source, clock or mutable state is a fact about
  which operations its text calls; it shows in \<open>calculatePositionSize\<close> having the
  configuration and the argument object as its only arguments, and is checked by reading the
  definition against the source, not by a proof over the definition.  The lemma above only
  records the value the model computes for the example inputs.
\<close>

section \<open>Properties of the position lifecycle engine\<close>

subsection \<open>The price cache touches nothing but itself\<close>

lemma getCachedMarketPrice_state:
  "\<exists>c. snd (getCachedMarketPrice st key nw fetched) = st\<lparr>marketPriceCache := c\<rparr>"
proof (cases "marketPriceCache st key")
  case None
  then show ?thesis
    by (cases fetched) (auto simp: getCachedMarketPrice_def intro: exI [of _ "marketPriceCache st"])
next
  case (Some a)
  then show ?thesis
    by (cases a; cases fetched)
       (auto simp: getCachedMarketPrice_def intro: exI [of _ "marketPriceCache st"])
qed


lemma getCachedMarketPrice_empty_cache:
  "marketPriceCache st key = None \<Longrightarrow>
     getCachedMarketPrice st key nw (Some p) = (Some p, st\<lparr>marketPriceCache := (marketPriceCache st)(key \<mapsto> (p, nw))\<rparr>)"
  by (simp add: getCachedMarketPrice_def)

subsection \<open>Adjusting the multipliers only logs and rescales\<close>

lemma adjustConfidenceMultiplier_fields [simp]:
  "positions (adjustConfidenceMultiplier st) = positions st"
  "positionStartTimes (adjustConfidenceMultiplier st) = positionStartTimes st"
  "isRunning (adjustConfidenceMultiplier st) = isRunning st"
  "shutdownRequested (adjustConfidenceMultiplier st) = shutdownRequested st"
  "totalPnL (adjustConfidenceMultiplier st) = totalPnL st"
  "dailyStats (adjustConfidenceMultiplier st) = dailyStats st"
  "winningTrades (adjustConfidenceMultiplier st) = winningTrades st"
  "totalTrades (adjustConfidenceMultiplier st) = totalTrades st"
  by (simp_all add: adjustConfidenceMultiplier_def emit_def Let_def)


subsection \<open>What an exit does to the table, the flags and the totals\<close>


lemma exitPosition_flags [simp]:
  "isRunning (exitPosition st symb position rsn env) = isRunning st"
  "shutdownRequested (exitPosition st symb position rsn env) = shutdownRequested st"
proof -
  obtain c where c: "snd (getCachedMarketPrice st (tokenMint position) (exitNow env) (exitQuote env))
      = st\<lparr>marketPriceCache := c\<rparr>"
    using getCachedMarketPrice_state by blast
  show "isRunning (exitPosition st symb position rsn env) = isRunning st"
    using c
    by (cases "getCachedMarketPrice st (tokenMint position) (exitNow env) (exitQuote env)")
       (auto simp: exitPosition_def emit_def Let_def split: option.splits)
  show "shutdownRequested (exitPosition st symb position rsn env) = shutdownRequested st"
    using c
    by (cases "getCachedMarketPrice st (tokenMint position) (exitNow env) (exitQuote env)")
       (auto simp: exitPosition_def emit_def Let_def split: option.splits)
qed

lemma exitPosition_totalPnL:
  assumes "fst (getCachedMarketPrice st (tokenMint position) (exitNow env) (exitQuote env)) = Some currentPrice"
    and "exitSwap env = Some sellResult"
    and "exitHoldingTime env = Some holdingTime"
  shows "totalPnL (exitPosition st symb position rsn env) =
           totalPnL st + (currentPrice - entryPrice position) * remainingQuantity position * currentPrice"
proof -
  obtain c where c: "snd (getCachedMarketPrice st (tokenMint position) (exitNow env) (exitQuote env))
      = st\<lparr>marketPriceCache := c\<rparr>"
    using getCachedMarketPrice_state by blast
  show ?thesis
    using c assms
    by (cases "getCachedMarketPrice st (tokenMint position) (exitNow env) (exitQuote env)")
       (auto simp: exitPosition_def emit_def Let_def split: option.splits)
qed



text \<open>
  Claim C2 says that the PnL of a full exit is \<open>(exitPrice - entryPrice) \<times> remainingQuantity\<close>.
  The code multiplies that product by the exit price once more: closing the example
  position (entry 100, remaining 10) at 120 records a PnL of 24000 in the totals, the log
  and the trade record, where the claim gives 200.
\<close>

theorem exitPosition_pnl_example:
  "totalPnL (exitPosition (bot0\<lparr>positions := [(''SOL'', sol_position)]\<rparr>) ''SOL'' sol_position
              ''trailing_stop'' (exit_ok 120 swap_ok)) = 24000
   \<and> events (exitPosition (bot0\<lparr>positions := [(''SOL'', sol_position)]\<rparr>) ''SOL'' sol_position
              ''trailing_stop'' (exit_ok 120 swap_ok))
       = [Swap ''SOL'' 10, TradeClosed ''SOL'' ''trailing_stop'' 24000,
          StoreTradeRecord ''SOL'' 100 120 24000 ''trailing_stop'' (Num 20)]
   \<and> (120 - entryPrice sol_position) * remainingQuantity sol_position = 200"
  by (simp add: exitPosition_def getCachedMarketPrice_def adjustConfidenceMultiplier_def emit_def
      bot0_def sol_position_def exit_ok_def swap_ok_def Let_def)

text \<open>
  Claim C3 says that an exit whose sell does not succeed is logged and leaves the position
  in the table.  That holds when the swap throws (\<open>exitPosition_positions\<close>,
  \<open>exitPosition_events_thrown\<close>), but not when it returns the status failed: the
  returned result is never read, so the example exit logs no error, records a closed trade
  and removes the position.
\<close>

theorem exitPosition_failed_sell_example:
  "SwapResult.status swap_failed = Failed
   \<and> map_of (positions (bot0\<lparr>positions := [(''SOL'', sol_position)]\<rparr>)) ''SOL'' = Some sol_position
   \<and> positions (exitPosition (bot0\<lparr>positions := [(''SOL'', sol_position)]\<rparr>) ''SOL'' sol_position
                 ''stop_loss'' (exit_ok 90 swap_failed)) = []
   \<and> events (exitPosition (bot0\<lparr>positions := [(''SOL'', sol_position)]\<rparr>) ''SOL'' sol_position
                 ''stop_loss'' (exit_ok 90 swap_failed))
       = [Swap ''SOL'' 10, TradeClosed ''SOL'' ''stop_loss'' (- 9000),
          StoreTradeRecord ''SOL'' 100 90 (- 9000) ''stop_loss'' (Num (- 10))]"
  by (simp add: exitPosition_def getCachedMarketPrice_def adjustConfidenceMultiplier_def emit_def
      bot0_def sol_position_def exit_ok_def swap_failed_def Let_def AList.delete_eq)

subsection \<open>Entering a position\<close>

lemma evaluateSignal_unchanged:
  assumes "map_of (positions st) (TradeSignal.symbol signal) \<noteq> None
     \<or> \<not> evalMint env \<or> evalLiquidity env = None \<or> evalWhale env = None
     \<or> fst (getCachedMarketPrice st (TradeSignal.symbol signal) (evalNow env) (evalQuote env)) = None
     \<or> (\<exists>why. evalLiquidity env = Some (False, why))
     \<or> evalWhale env = Some True
     \<or> evalSwap env = None
     \<or> (\<exists>r. evalSwap env = Some r \<and> SwapResult.status r \<noteq> Success)"
  shows "positions (evaluateSignal st signal env) = positions st"
proof -
  obtain c where c: "snd (getCachedMarketPrice st (TradeSignal.symbol signal) (evalNow env) (evalQuote env))
      = st\<lparr>marketPriceCache := c\<rparr>"
    using getCachedMarketPrice_state by blast
  show ?thesis
    using c assms
    by (cases "getCachedMarketPrice st (TradeSignal.symbol signal) (evalNow env) (evalQuote env)")
       (auto simp: evaluateSignal_def emit_def Let_def split: option.splits prod.splits)
qed

text \<open>
  Claim C9.  \<open>evaluateSignal\<close> leaves the position table as it was when an open position
  exists for the symbol, when a call throws (the key, the liquidity analysis, the whale
  metrics, the price or the swap), when the liquidity is unsafe, when whale distribution
  is detected, and when the swap returns a status other than success; so the table changes
  only when the swap returned success.
\<close>

theorem evaluateSignal_entry_only_on_success:
  "((map_of (positions st) (TradeSignal.symbol signal) \<noteq> None
      \<or> \<not> evalMint env \<or> evalLiquidity env = None \<or> evalWhale env = None
      \<or> fst (getCachedMarketPrice st (TradeSignal.symbol signal) (evalNow env) (evalQuote env)) = None
      \<or> (\<exists>why. evalLiquidity env = Some (False, why))
      \<or> evalWhale env = Some True
      \<or> evalSwap env = None
      \<or> (\<exists>r. evalSwap env = Some r \<and> SwapResult.status r \<noteq> Success))
     \<longrightarrow> positions (evaluateSignal st signal env) = positions st)
   \<and> (positions (evaluateSignal st signal env) \<noteq> positions st
     \<longrightarrow> (\<exists>r. evalSwap env = Some r \<and> SwapResult.status r = Success))"
proof (intro conjI impI)
  assume "map_of (positions st) (TradeSignal.symbol signal) \<noteq> None
      \<or> \<not> evalMint env \<or> evalLiquidity env = None \<or> evalWhale env = None
      \<or> fst (getCachedMarketPrice st (TradeSignal.symbol signal) (evalNow env) (evalQuote env)) = None
      \<or> (\<exists>why. evalLiquidity env = Some (False, why))
      \<or> evalWhale env = Some True
      \<or> evalSwap env = None
      \<or> (\<exists>r. evalSwap env = Some r \<and> SwapResult.status r \<noteq> Success)"
  then show "positions (evaluateSignal st signal env) = positions st"
    by (rule evaluateSignal_unchanged)
next
  assume changed: "positions (evaluateSignal st signal env) \<noteq> positions st"
  show "\<exists>r. evalSwap env = Some r \<and> SwapResult.status r = Success"
  proof (cases "evalSwap env")
    case None
    then have "positions (evaluateSignal st signal env) = positions st"
      by (intro evaluateSignal_unchanged) simp
    with changed show ?thesis by simp
  next
    case (Some r)
    show ?thesis
    proof (cases "SwapResult.status r = Success")
      case True
      with Some show ?thesis by simp
    next
      case False
      with Some have "positions (evaluateSignal st signal env) = positions st"
        by (intro evaluateSignal_unchanged) simp
      with changed show ?thesis by simp
    qed
  qed
qed

lemma evaluateSignal_example_entered:
  "map_of (positions (evaluateSignal bot0 sol_signal (eval_ok swap_ok))) ''SOL'' =
     Some (sol_position\<lparr>openedAt := 7002\<rparr>)"
  by (simp add: evaluateSignal_def getCachedMarketPrice_def emit_def bot0_def sol_signal_def eval_ok_def
      swap_ok_def sol_position_def TradingBot_calculatePositionSize_def Let_def
      config_trading_stopLoss_initial_def config_trading_takeProfitLevels_0_percent_def
      config_trading_takeProfitLevels_0_size_def config_trading_takeProfitLevels_1_percent_def
      config_trading_takeProfitLevels_1_size_def config_trading_stopLoss_trailing_callback_def)

theorem evaluateSignal_entry_only_on_success_witness:
  "evalSwap (eval_ok swap_failed) = Some swap_failed
   \<and> SwapResult.status swap_failed \<noteq> Success
   \<and> positions (evaluateSignal bot0 sol_signal (eval_ok swap_failed)) = positions bot0
   \<and> positions (evaluateSignal bot0 sol_signal (eval_ok swap_ok)) \<noteq> positions bot0
   \<and> evalSwap (eval_ok swap_ok) = Some swap_ok
   \<and> SwapResult.status swap_ok = Success"
proof -
  have changed: "positions (evaluateSignal bot0 sol_signal (eval_ok swap_ok)) \<noteq> positions bot0"
    using evaluateSignal_example_entered by (auto simp: bot0_def)
  have failed: "\<exists>r. evalSwap (eval_ok swap_failed) = Some r \<and> SwapResult.status r \<noteq> Success"
    by (simp add: eval_ok_def swap_failed_def)
  show ?thesis
    using evaluateSignal_entry_only_on_success [of bot0 sol_signal "eval_ok swap_failed"]
      evaluateSignal_entry_only_on_success [of bot0 sol_signal "eval_ok swap_ok"] changed failed
    by (simp add: eval_ok_def swap_failed_def swap_ok_def)
qed

subsection \<open>The take-profit blocks\<close>









subsection \<open>A tick never clears a take-profit flag\<close>

lemma hitsLe_refl [simp]: "hitsLe p p"
  by (simp add: hitsLe_def)

lemma hitsLe_trans: "hitsLe q p \<Longrightarrow> hitsLe p r \<Longrightarrow> hitsLe q r"
  by (simp add: hitsLe_def)

lemma hitsKept_emit [simp]: "hitsKept q (emit st e) symb = hitsKept q st symb"
  by (simp add: hitsKept_def emit_def)













subsection \<open>Reaching the take-profit blocks\<close>

text \<open>
  A sufficient condition for a tick to reach the take-profit blocks: the price is
  available, the position is not older than \<open>reallocateAfter\<close> (so neither sideways test
  applies), the whale metrics return without distribution, the trailing stop is inactive
  and the price is above the stop-loss.
\<close>

lemma updatePosition_reaches_takeProfit:
  assumes "getCachedMarketPrice st (tokenMint position) (tickNow env) (tickQuote env) = (Some currentPrice, st1)"
    and "(case positionStartTimes st1 symb of None \<Rightarrow> 0 | Some t \<Rightarrow> if t = 0 then 0 else tickAgeNow env - t)
           \<le> config_sidewaysProtection_reallocateAfter"
    and "tickWhale env = Some False"
    and "\<not> active (trailingStop position)"
    and "currentPrice > stopLoss position"
  shows "updatePosition st symb position env = updatePosition_takeProfit st1 symb position currentPrice env"
  using assms
  by (simp add: updatePosition_def updatePosition_reallocate_def updatePosition_whale_def
      updatePosition_trailingStop_def updatePosition_stopLoss_def Let_def
      config_sidewaysProtection_reallocateAfter_def config_sidewaysProtection_maxHoldingTime_def)







subsection \<open>Take-profit levels fire once\<close>


lemma events_setPosition [simp]: "events (setPosition st symb p) = events st"
  by (simp add: setPosition_def)





subsection \<open>Shutdown\<close>















end
